theory Spec2Isabelle
  imports Complex_Main
begin

section \<open>Desk items viewer: the item store, the add form and the assistant bridge\<close>

text \<open>
  A shallow embedding of \<^verbatim>\<open>desk_viewer.py\<close>. The widgets of the window are fields of a
  record, every handler is a function from that record (and the file system) to the
  record after the handler, and an exception that leaves a handler is the \<open>Inl\<close> of a
  sum. Drawing on the canvas has no effect on any value read back by the program and is
  left out.

  Python's own library is not part of the program. Where its result is fixed by the
  value alone it is written out (truth values, comparison of floats, the \<open>.3f\<close> format,
  \<open>str.strip\<close>, equality of floats); where it rounds to a binary double or parses text
  it is a field of the record \<open>pylib\<close>, a parameter of the functions that call it.
  A string is a list of characters with code points below 256.
\<close>

subsection \<open>Values\<close>

text \<open>
  A float is its exact rational value, or one of the four values that have none.
\<close>

datatype pyfloat = Fin rat | NegZero | PosInf | NegInf | NaN

text \<open>What \<^verbatim>\<open>json.load\<close> returns; a dict is its items in order, keys distinct.\<close>

datatype json =
    JNull
  | JBool bool
  | JInt int
  | JFloat pyfloat
  | JStr string
  | JArr "json list"
  | JObj "(string \<times> json) list"

datatype exn = ValueError | TypeError | AttributeError | OverflowError | OSError

record pylib =
  json_load :: "string \<Rightarrow> string + json"
  json_dump :: "json \<Rightarrow> string"
  float_of_str :: "string \<Rightarrow> pyfloat option"
  float_of_int :: "int \<Rightarrow> pyfloat option"
  py_str :: "json \<Rightarrow> string"

text \<open>
  \<open>json_load\<close> is opening, decoding and parsing the text of a file (\<open>Inl\<close> the text of
  the exception), \<open>json_dump\<close> is \<^verbatim>\<open>json.dump(data, f, ensure_ascii=False, indent=2)\<close>,
  \<open>float_of_str\<close> and \<open>float_of_int\<close> are the builtin \<^verbatim>\<open>float\<close> on a string (\<open>None\<close> is
  ValueError) and on an int (\<open>None\<close> is OverflowError), \<open>py_str\<close> is the builtin
  \<^verbatim>\<open>str\<close> on a value that is not a string.
\<close>

fun float_is_zero :: "pyfloat \<Rightarrow> bool" where
  "float_is_zero (Fin r) = (r = 0)"
| "float_is_zero NegZero = True"
| "float_is_zero _ = False"

text \<open>The truth value of a Python object, as \<^verbatim>\<open>or\<close> and \<^verbatim>\<open>not\<close> take it.\<close>

fun truthy :: "json \<Rightarrow> bool" where
  "truthy JNull = False"
| "truthy (JBool b) = b"
| "truthy (JInt i) = (i \<noteq> 0)"
| "truthy (JFloat f) = (\<not> float_is_zero f)"
| "truthy (JStr s) = (s \<noteq> [])"
| "truthy (JArr vs) = (vs \<noteq> [])"
| "truthy (JObj kvs) = (kvs \<noteq> [])"

text \<open>\<^verbatim>\<open>a or b\<close>\<close>

definition py_or :: "json \<Rightarrow> json \<Rightarrow> json" where
  "py_or a b = (if truthy a then a else b)"

text \<open>\<^verbatim>\<open>float(v)\<close> for a value that came out of a JSON document.\<close>

fun py_float :: "pylib \<Rightarrow> json \<Rightarrow> exn + pyfloat" where
  "py_float L (JFloat f) = Inr f"
| "py_float L (JInt i) =
     (case float_of_int L i of None \<Rightarrow> Inl OverflowError | Some f \<Rightarrow> Inr f)"
| "py_float L (JBool b) = Inr (Fin (if b then 1 else 0))"
| "py_float L (JStr s) =
     (case float_of_str L s of None \<Rightarrow> Inl ValueError | Some f \<Rightarrow> Inr f)"
| "py_float L JNull = Inl TypeError"
| "py_float L (JArr vs) = Inl TypeError"
| "py_float L (JObj kvs) = Inl TypeError"

text \<open>IEEE comparison \<^verbatim>\<open>a <= b\<close>: false as soon as one side is NaN.\<close>

fun float_le :: "pyfloat \<Rightarrow> pyfloat \<Rightarrow> bool" where
  "float_le NaN _ = False"
| "float_le _ NaN = False"
| "float_le NegInf _ = True"
| "float_le _ PosInf = True"
| "float_le PosInf _ = False"
| "float_le _ NegInf = False"
| "float_le (Fin a) (Fin b) = (a \<le> b)"
| "float_le (Fin a) NegZero = (a \<le> 0)"
| "float_le NegZero (Fin b) = (0 \<le> b)"
| "float_le NegZero NegZero = True"

subsection \<open>DeskItem\<close>

text \<open>
  The dataclass annotates \<open>timestamp\<close>, \<open>name\<close> and \<open>color\<close> as \<^verbatim>\<open>str\<close>, but
  \<^verbatim>\<open>from_dict\<close> stores whatever truthy value the document holds, so these fields range
  over all values.
\<close>

record DeskItem =
  timestamp :: json
  name :: json
  x :: pyfloat
  y :: pyfloat
  color :: json

text \<open>\<^verbatim>\<open>data.get(key)\<close> and \<^verbatim>\<open>data.get(key, default)\<close> on a dict.\<close>

definition dict_get :: "(string \<times> json) list \<Rightarrow> string \<Rightarrow> json \<Rightarrow> json" where
  "dict_get kvs k d = (case map_of kvs k of None \<Rightarrow> d | Some v \<Rightarrow> v)"

text \<open>
  \<^verbatim>\<open>DeskItem.from_dict\<close>. The keyword arguments are evaluated in the order written, so a
  bad \<open>x\<close> is reported before a bad \<open>y\<close>. A value that is no dict has no \<^verbatim>\<open>get\<close>.
\<close>

fun from_dict :: "pylib \<Rightarrow> json \<Rightarrow> exn + DeskItem" where
  "from_dict L (JObj kvs) =
     (let t = py_or (dict_get kvs ''timestamp'' JNull) (JStr '''');
          n = py_or (dict_get kvs ''name'' JNull) (JStr '''')
      in case py_float L (dict_get kvs ''x'' (JInt 0)) of
           Inl e \<Rightarrow> Inl e
         | Inr xv \<Rightarrow>
            (case py_float L (dict_get kvs ''y'' (JInt 0)) of
               Inl e \<Rightarrow> Inl e
             | Inr yv \<Rightarrow>
                Inr \<lparr>timestamp = t, name = n, x = xv, y = yv,
                     color = py_or (dict_get kvs ''color'' JNull) (JStr '''')\<rparr>))"
| "from_dict L _ = Inl AttributeError"

text \<open>\<^verbatim>\<open>to_dict\<close>, that is \<^verbatim>\<open>asdict(self)\<close>: the fields in declaration order.\<close>

definition to_dict :: "DeskItem \<Rightarrow> json" where
  "to_dict it = JObj [(''timestamp'', timestamp it), (''name'', name it),
                      (''x'', JFloat (x it)), (''y'', JFloat (y it)),
                      (''color'', color it)]"

text \<open>The list comprehension \<^verbatim>\<open>[DeskItem.from_dict(d) for d in data]\<close>: the first
  exception ends it.\<close>

fun from_dicts :: "pylib \<Rightarrow> json list \<Rightarrow> exn + DeskItem list" where
  "from_dicts L [] = Inr []"
| "from_dicts L (d # ds) =
     (case from_dict L d of
        Inl e \<Rightarrow> Inl e
      | Inr it \<Rightarrow> (case from_dicts L ds of Inl e \<Rightarrow> Inl e | Inr its \<Rightarrow> Inr (it # its)))"

text \<open>
  What \<^verbatim>\<open>for d in data\<close> iterates over: the elements of a list, the keys of a dict,
  the characters of a string; any other value is not iterable.
\<close>

fun py_iter :: "json \<Rightarrow> exn + json list" where
  "py_iter (JArr vs) = Inr vs"
| "py_iter (JObj kvs) = Inr (map (\<lambda>kv. JStr (fst kv)) kvs)"
| "py_iter (JStr s) = Inr (map (\<lambda>c. JStr [c]) s)"
| "py_iter _ = Inl TypeError"

subsection \<open>Text helpers\<close>

text \<open>The decimal digits of a natural number, as \<^verbatim>\<open>str(n)\<close> and \<^verbatim>\<open>{n}\<close> print it.\<close>

definition digit_char :: "nat \<Rightarrow> char" where
  "digit_char d = ''0123456789'' ! d"

function show_nat :: "nat \<Rightarrow> string" where
  "show_nat n = (if n < 10 then [digit_char n] else show_nat (n div 10) @ [digit_char (n mod 10)])"
  by pat_completeness auto
termination
  by (relation "measure (\<lambda>n. n)") auto

declare show_nat.simps [simp del]

text \<open>\<^verbatim>\<open>str.strip()\<close>: the characters for which \<^verbatim>\<open>isspace\<close> holds are removed at both
  ends. Below 256 these are the space, the controls 9 to 13 and 28 to 31, the next-line
  control 0x85 and the no-break space 0xA0.\<close>

definition is_space :: "char \<Rightarrow> bool" where
  "is_space c = (c \<in> set [CHR '' '', CHR 0x09, CHR 0x0A, CHR 0x0B, CHR 0x0C, CHR 0x0D,
                           CHR 0x1C, CHR 0x1D, CHR 0x1E, CHR 0x1F, CHR 0x85, CHR 0xA0])"

definition strip :: "string \<Rightarrow> string" where
  "strip s = rev (dropWhile is_space (rev (dropWhile is_space s)))"

text \<open>\<^verbatim>\<open>needle in hay\<close> on strings.\<close>

fun contains :: "string \<Rightarrow> string \<Rightarrow> bool" where
  "contains [] needle = (needle = [])"
| "contains (c # cs) needle = (take (length needle) (c # cs) = needle \<or> contains cs needle)"

text \<open>\<^verbatim>\<open>str.lower()\<close>, written out on the ASCII letters: the texts searched for are
  ASCII, and no other character below 256 has an ASCII letter as its lower case.\<close>

definition lower_char :: "char \<Rightarrow> char" where
  "lower_char c =
     (case map_of (zip ''ABCDEFGHIJKLMNOPQRSTUVWXYZ'' ''abcdefghijklmnopqrstuvwxyz'') c of
        None \<Rightarrow> c
      | Some l \<Rightarrow> l)"

definition lower :: "string \<Rightarrow> string" where
  "lower s = map lower_char s"

subsection \<open>The files and the window\<close>

type_synonym path = string

record stored_file =
  contents :: string
  mtime :: real

text \<open>
  The file system as the program sees it: the files by path, and the paths at which
  creating the parent directories or opening for writing raises OSError.
\<close>

record world =
  files :: "path \<rightharpoonup> stored_file"
  unwritable :: "path \<Rightarrow> bool"

text \<open>\<^verbatim>\<open>path.exists()\<close> and \<^verbatim>\<open>path.stat().st_mtime\<close>.\<close>

definition path_exists :: "world \<Rightarrow> path \<Rightarrow> bool" where
  "path_exists w p = (files w p \<noteq> None)"

definition stat_mtime :: "world \<Rightarrow> path \<Rightarrow> exn + real" where
  "stat_mtime w p = (case files w p of None \<Rightarrow> Inl OSError | Some f \<Rightarrow> Inr (mtime f))"

text \<open>One message of a chat request, and what the chat capability answers.\<close>

record message =
  role :: string
  content :: string

datatype chat_result = ChatError string | ChatReply string

text \<open>
  The fields of \<open>DeskApp\<close> that the handlers read or write. \<open>dialogs\<close> is the list of
  \<^verbatim>\<open>messagebox.showerror\<close> calls (title, text) and \<open>requests\<close> the list of calls of
  \<^verbatim>\<open>client.chat.completions.create\<close>, both in the order made.
\<close>

record app =
  client :: "(message list \<Rightarrow> chat_result) option"
  items :: "DeskItem list"
  last_loaded_mtime :: "real option"
  path_var :: string
  time_var :: string
  name_var :: string
  x_var :: string
  y_var :: string
  color_var :: string
  status_var :: string
  user_question :: string
  response_box :: string
  dialogs :: "(string \<times> string) list"
  requests :: "message list list"

definition showerror :: "string \<Rightarrow> string \<Rightarrow> app \<Rightarrow> app" where
  "showerror title txt st = st\<lparr>dialogs := dialogs st @ [(title, txt)]\<rparr>"

subsection \<open>Item store\<close>

text \<open>The \<^verbatim>\<open>try: stat / except OSError: None\<close> of both \<open>_save_items\<close> and
  \<open>_load_from_path\<close>.\<close>

definition mtime_or_none :: "world \<Rightarrow> path \<Rightarrow> real option" where
  "mtime_or_none w p = (case stat_mtime w p of Inl e \<Rightarrow> None | Inr m \<Rightarrow> Some m)"

text \<open>
  \<^verbatim>\<open>_save_items\<close>. \<open>now\<close> is the modification time the system gives the written file.
  Nothing catches an OSError of \<^verbatim>\<open>mkdir\<close> or \<^verbatim>\<open>open\<close>: it leaves the handler.
\<close>

definition save_items :: "pylib \<Rightarrow> real \<Rightarrow> world \<Rightarrow> app \<Rightarrow> exn + (app \<times> world)" where
  "save_items L now w st =
     (let path = path_var st in
      if unwritable w path then Inl OSError
      else
        let data = JArr (map to_dict (items st));
            w' = w\<lparr>files := (files w)(path \<mapsto> \<lparr>contents = json_dump L data, mtime = now\<rparr>)\<rparr>;
            st' = st\<lparr>last_loaded_mtime := mtime_or_none w' path\<rparr>
        in Inr (st'\<lparr>status_var := ''Saved to '' @ path\<rparr>, w'))"

text \<open>
  \<^verbatim>\<open>_load_from_path\<close>. Only the reading and parsing is inside the \<^verbatim>\<open>try\<close>; the conversion
  of the elements comes after it, so what it raises leaves the function.
\<close>

definition load_from_path :: "pylib \<Rightarrow> world \<Rightarrow> bool \<Rightarrow> bool \<Rightarrow> app \<Rightarrow> exn + app" where
  "load_from_path L w show_errors show_status st =
     (let path = path_var st in
      if \<not> path_exists w path then
        Inr (if show_errors then showerror ''File missing'' (''Cannot find '' @ path) st else st)
      else
        case json_load L (contents (the (files w path))) of
          Inl exc \<Rightarrow>
            Inr (if show_errors then showerror ''Load failed'' (''Cannot parse file: '' @ exc) st
                 else st)
        | Inr data \<Rightarrow>
           (case py_iter data of
              Inl e \<Rightarrow> Inl e
            | Inr ds \<Rightarrow>
               (case from_dicts L ds of
                  Inl e \<Rightarrow> Inl e
                | Inr its \<Rightarrow>
                   (let st1 = st\<lparr>items := its, last_loaded_mtime := mtime_or_none w path\<rparr>
                    in Inr (if show_status
                            then st1\<lparr>status_var := ''Loaded '' @ show_nat (length its)
                                                     @ '' items from '' @ path\<rparr>
                            else st1)))))"

text \<open>The condition under which \<^verbatim>\<open>_poll_file_change\<close> reloads; an exception of
  \<^verbatim>\<open>stat\<close> is swallowed by the handler's \<^verbatim>\<open>except Exception: pass\<close>.\<close>

definition poll_wants_reload :: "world \<Rightarrow> app \<Rightarrow> bool" where
  "poll_wants_reload w st =
     (let path = path_var st in
      if path_exists w path then
        (case stat_mtime w path of
           Inl e \<Rightarrow> False
         | Inr m \<Rightarrow> (case last_loaded_mtime st of None \<Rightarrow> True | Some b \<Rightarrow> m > b))
      else False)"

text \<open>\<^verbatim>\<open>_poll_file_change\<close>: every exception of the reload is swallowed too, and the
  state is then the one before the reload.\<close>

definition poll_file_change :: "pylib \<Rightarrow> world \<Rightarrow> app \<Rightarrow> app" where
  "poll_file_change L w st =
     (if poll_wants_reload w st then
        (case load_from_path L w False True st of Inl e \<Rightarrow> st | Inr st' \<Rightarrow> st')
      else st)"

subsection \<open>Add form\<close>

text \<open>
  \<^verbatim>\<open>_add_item\<close>. \<open>now_iso\<close> is \<^verbatim>\<open>datetime.now().isoformat()\<close>. Both coordinates are
  converted inside the \<^verbatim>\<open>try\<close>, \<open>x\<close> first; the comparisons with the ints 0 and 1 are
  exact.
\<close>

definition add_item :: "pylib \<Rightarrow> string \<Rightarrow> app \<Rightarrow> app" where
  "add_item L now_iso st =
     (case float_of_str L (x_var st) of
        None \<Rightarrow> showerror ''Format error'' ''X and Y must be numbers (0-1).'' st
      | Some xv \<Rightarrow>
         (case float_of_str L (y_var st) of
            None \<Rightarrow> showerror ''Format error'' ''X and Y must be numbers (0-1).'' st
          | Some yv \<Rightarrow>
             (let item = \<lparr>timestamp = py_or (JStr (strip (time_var st))) (JStr now_iso),
                          name = JStr (strip (name_var st)),
                          x = xv, y = yv,
                          color = JStr (strip (color_var st))\<rparr>
              in if \<not> truthy (name item) then
                   showerror ''Missing name'' ''Please enter item name.'' st
                 else if \<not> (float_le (Fin 0) (x item) \<and> float_le (x item) (Fin 1)
                            \<and> float_le (Fin 0) (y item) \<and> float_le (y item) (Fin 1)) then
                   showerror ''Coordinate error'' ''X/Y must be between 0 and 1.'' st
                 else
                   st\<lparr>items := items st @ [item],
                      status_var := ''Added: '' @ strip (name_var st),
                      name_var := [],
                      color_var := []\<rparr>)))"

subsection \<open>Assistant bridge\<close>

text \<open>
  The format \<^verbatim>\<open>.3f\<close>: the exact value is rounded to the nearest thousandth, an exact
  tie to the even one, and a negative value keeps its sign even when it rounds to zero.
\<close>

definition round_half_even :: "rat \<Rightarrow> int" where
  "round_half_even q =
     (let f = \<lfloor>q\<rfloor>; d = q - of_int f
      in if d < 1 / 2 then f else if 1 / 2 < d then f + 1 else if even f then f else f + 1)"

fun fmt3f :: "pyfloat \<Rightarrow> string" where
  "fmt3f (Fin r) =
     (let n = nat (round_half_even (\<bar>r\<bar> * 1000))
      in (if r < 0 then ''-'' else []) @ show_nat (n div 1000) @ ''.''
         @ [digit_char (n mod 1000 div 100), digit_char (n mod 100 div 10), digit_char (n mod 10)])"
| "fmt3f NegZero = ''-0.000''"
| "fmt3f PosInf = ''inf''"
| "fmt3f NegInf = ''-inf''"
| "fmt3f NaN = ''nan''"

text \<open>A replacement field \<^verbatim>\<open>{v}\<close> of an f-string: a string is taken as it is.\<close>

definition fmt_val :: "pylib \<Rightarrow> json \<Rightarrow> string" where
  "fmt_val L v = (case v of JStr s \<Rightarrow> s | _ \<Rightarrow> py_str L v)"

text \<open>The line that \<^verbatim>\<open>_build_messages\<close> appends for one item.\<close>

definition item_line :: "pylib \<Rightarrow> nat \<Rightarrow> DeskItem \<Rightarrow> string" where
  "item_line L idx it =
     show_nat idx @ ''. '' @ fmt_val L (name it)
     @ '' | color: '' @ fmt_val L (py_or (color it) (JStr ''unknown''))
     @ '' | pos: ('' @ fmt3f (x it) @ '', '' @ fmt3f (y it) @ '')''
     @ '' | placed: '' @ fmt_val L (timestamp it)"

text \<open>The loop \<^verbatim>\<open>for idx, item in enumerate(self.items, start=1)\<close> with its list
  \<open>item_lines\<close>.\<close>

fun item_lines_loop :: "pylib \<Rightarrow> nat \<Rightarrow> DeskItem list \<Rightarrow> string list \<Rightarrow> string list" where
  "item_lines_loop L idx [] item_lines = item_lines"
| "item_lines_loop L idx (it # its) item_lines =
     item_lines_loop L (idx + 1) its (item_lines @ [item_line L idx it])"

text \<open>\<^verbatim>\<open>sep.join(lines)\<close>\<close>

fun join :: "string \<Rightarrow> string list \<Rightarrow> string" where
  "join sep [] = []"
| "join sep [l] = l"
| "join sep (l # ls) = l @ sep @ join sep ls"

definition newline :: string where
  "newline = [CHR 0x0A]"

definition SYSTEM_PROMPT :: string where
  "SYSTEM_PROMPT = ''You are a concise assistant. Answer only the user's question using the desk items context. Do not add extra commentary.''"

definition build_messages :: "pylib \<Rightarrow> DeskItem list \<Rightarrow> string \<Rightarrow> message list" where
  "build_messages L its question =
     (let item_lines = item_lines_loop L 1 its [];
          items_desc = (if item_lines \<noteq> [] then join newline item_lines else ''No items.'');
          user_content = ''Current desk items (coords 0-1, origin top-left):'' @ newline
                         @ items_desc @ newline @ newline
                         @ ''Question: '' @ question
      in [\<lparr>role = ''system'', content = SYSTEM_PROMPT\<rparr>,
          \<lparr>role = ''user'', content = user_content\<rparr>])"

definition QUOTA_TEXT :: string where
  "QUOTA_TEXT = ''API quota exceeded or unavailable. Check billing or use another API key.''"

definition AUTH_TEXT :: string where
  "AUTH_TEXT = ''API key invalid or missing. Check apu_key.txt or OPENAI_API_KEY.''"

text \<open>\<^verbatim>\<open>_friendly_error\<close>\<close>

definition friendly_error :: "string \<Rightarrow> string" where
  "friendly_error msg =
     (let lower = lower msg in
      if contains lower ''insufficient_quota'' \<or> contains lower ''quota'' then QUOTA_TEXT
      else if contains lower ''401'' \<or> contains lower ''invalid_api_key'' then AUTH_TEXT
      else msg)"

definition append_chat :: "string \<Rightarrow> app \<Rightarrow> app" where
  "append_chat txt st = st\<lparr>response_box := response_box st @ txt\<rparr>"

definition NO_ITEMS_REPLY :: string where
  "NO_ITEMS_REPLY = ''Assistant: I don't see any items yet.'' @ newline @ newline"

definition DISABLED_NOTICE :: "string \<times> string" where
  "DISABLED_NOTICE = (''OpenAI disabled'',
     ''openai package or OPENAI_API_KEY missing. Please install and set an API key.'')"

text \<open>
  \<^verbatim>\<open>_send_question\<close>. The call of the chat capability is recorded in \<open>requests\<close>; an
  exception of the call is \<open>ChatError\<close> with its text.
\<close>

definition send_question :: "pylib \<Rightarrow> app \<Rightarrow> app" where
  "send_question L st =
     (case client st of
        None \<Rightarrow> showerror (fst DISABLED_NOTICE) (snd DISABLED_NOTICE) st
      | Some create \<Rightarrow>
         (let question = strip (user_question st) in
          if question = [] then st\<lparr>status_var := ''Enter a question first.''\<rparr>
          else
            let st1 = (append_chat (''You: '' @ question @ newline) st)\<lparr>user_question := []\<rparr>
            in if items st1 = [] then append_chat NO_ITEMS_REPLY st1
               else
                 let messages = build_messages L (items st1) question;
                     st2 = st1\<lparr>requests := requests st1 @ [messages]\<rparr>
                 in case create messages of
                      ChatError exc \<Rightarrow>
                        (append_chat (''Assistant: (error) '' @ friendly_error exc @ newline @ newline) st2)
                          \<lparr>status_var := ''OpenAI call failed''\<rparr>
                    | ChatReply reply \<Rightarrow>
                        (append_chat (''Assistant: '' @ strip reply @ newline @ newline) st2)
                          \<lparr>status_var := ''Response received.''\<rparr>))"

subsection \<open>Credentials\<close>

text \<open>
  What \<^verbatim>\<open>_init_openai_client\<close> reads: whether the import of \<^verbatim>\<open>openai\<close> succeeded, the
  process environment, the file \<^verbatim>\<open>apu_key.txt\<close> (\<open>None\<close>: it does not exist,
  \<open>Some None\<close>: reading it raises, \<open>Some (Some t)\<close>: its text), and the constructor
  \<^verbatim>\<open>OpenAI()\<close>, which reads the environment and may raise (\<open>None\<close>).
\<close>

record startup =
  openai_imported :: bool
  environ :: "string \<rightharpoonup> string"
  key_file :: "string option option"
  OpenAI :: "(string \<rightharpoonup> string) \<Rightarrow> (message list \<Rightarrow> chat_result) option"

definition env_key :: "(string \<rightharpoonup> string) \<Rightarrow> bool" where
  \<comment> \<open>the truth value of \<^verbatim>\<open>os.environ.get("OPENAI_API_KEY")\<close>\<close>
  "env_key e = (case e ''OPENAI_API_KEY'' of None \<Rightarrow> False | Some v \<Rightarrow> v \<noteq> [])"

text \<open>
  \<^verbatim>\<open>os.environ[name] = value\<close>: a value with an embedded NUL character raises ValueError.
\<close>

definition environ_set ::
  "(string \<rightharpoonup> string) \<Rightarrow> string \<Rightarrow> string \<Rightarrow> exn + (string \<rightharpoonup> string)" where
  "environ_set e k v = (if CHR 0x00 \<in> set v then Inl ValueError else Inr (e(k \<mapsto> v)))"

text \<open>
  \<^verbatim>\<open>_init_openai_client\<close>: the client, and the environment as it leaves it. The \<^verbatim>\<open>try\<close>
  around the key file covers the reading and the assignment to the environment; whatever
  either raises is dropped and the environment stays as it was.
\<close>

definition init_openai_client ::
  "startup \<Rightarrow> (message list \<Rightarrow> chat_result) option \<times> (string \<rightharpoonup> string)" where
  "init_openai_client s =
     (if \<not> openai_imported s then (None, environ s)
      else
        let e1 = (if \<not> env_key (environ s) then
                    (case key_file s of
                       Some (Some txt) \<Rightarrow>
                         (let key = strip txt in
                          if key \<noteq> [] then
                            (case environ_set (environ s) ''OPENAI_API_KEY'' key of
                               Inl e \<Rightarrow> environ s
                             | Inr e' \<Rightarrow> e')
                          else environ s)
                     | _ \<Rightarrow> environ s)
                  else environ s)
        in if \<not> env_key e1 then (None, e1) else (OpenAI s e1, e1))"

subsection \<open>Equality of items, well-formed items, and the key the specification resolves\<close>

text \<open>
  \<^verbatim>\<open>==\<close> on floats compares by value: NaN equals nothing, itself included, and the two
  zeros are equal. (Python's tuples and lists first test whether two elements are one and
  the same object; that test is not modelled, the floats compared below come from
  different conversions.)
\<close>

fun float_eq :: "pyfloat \<Rightarrow> pyfloat \<Rightarrow> bool" where
  "float_eq NaN _ = False"
| "float_eq _ NaN = False"
| "float_eq (Fin a) (Fin b) = (a = b)"
| "float_eq (Fin a) NegZero = (a = 0)"
| "float_eq NegZero (Fin b) = (b = 0)"
| "float_eq NegZero NegZero = True"
| "float_eq PosInf PosInf = True"
| "float_eq NegInf NegInf = True"
| "float_eq _ _ = False"

text \<open>
  \<^verbatim>\<open>==\<close> on two \<open>DeskItem\<close>s whose text fields hold strings, which is the equality the
  dataclass generates (the fields compared in order), and \<^verbatim>\<open>==\<close> on two lists of them.
\<close>

definition item_eq :: "DeskItem \<Rightarrow> DeskItem \<Rightarrow> bool" where
  "item_eq a b = (timestamp a = timestamp b \<and> name a = name b \<and> float_eq (x a) (x b)
                  \<and> float_eq (y a) (y b) \<and> color a = color b)"

definition items_eq :: "DeskItem list \<Rightarrow> DeskItem list \<Rightarrow> bool" where
  "items_eq as bs = list_all2 item_eq as bs"

text \<open>No coordinate of the item is NaN.\<close>

definition no_nan :: "DeskItem \<Rightarrow> bool" where
  "no_nan it = (x it \<noteq> NaN \<and> y it \<noteq> NaN)"

fun is_str :: "json \<Rightarrow> bool" where
  "is_str (JStr s) = True"
| "is_str _ = False"

text \<open>An item as the data model describes it: the three text fields hold strings.\<close>

definition well_formed :: "DeskItem \<Rightarrow> bool" where
  "well_formed it = (is_str (timestamp it) \<and> is_str (name it) \<and> is_str (color it))"

text \<open>
  The key of the credential rule, stated apart from the code: the environment variable
  when it is set and not empty, otherwise the whole text of the key file with the white
  space at both ends removed, when that is not empty and can be stored in the environment
  (it holds no NUL character).
\<close>

definition file_key :: "startup \<Rightarrow> string option" where
  "file_key s = (case key_file s of
                   Some (Some txt) \<Rightarrow>
                     if strip txt \<noteq> [] \<and> CHR 0x00 \<notin> set (strip txt) then Some (strip txt)
                     else None
                 | _ \<Rightarrow> None)"

definition resolved_key :: "startup \<Rightarrow> string option" where
  "resolved_key s = (case environ s ''OPENAI_API_KEY'' of
                       Some v \<Rightarrow> if v \<noteq> [] then Some v else file_key s
                     | None \<Rightarrow> file_key s)"

text \<open>The first line of a text, up to the first line feed.\<close>

definition first_line :: "string \<Rightarrow> string" where
  "first_line s = takeWhile (\<lambda>c. c \<noteq> CHR 0x0A) s"

subsection \<open>Concrete inputs\<close>


definition pen :: DeskItem where
  "pen = \<lparr>timestamp = JStr [], name = JStr ''pen'', x = Fin (1 / 2), y = Fin (1 / 2),
          color = JStr ''blue''\<rparr>"

text \<open>An item whose \<open>x\<close> is NaN, as \<^verbatim>\<open>float("nan")\<close> gives it for an element of a file
  whose \<open>x\<close> is the string \<^verbatim>\<open>"nan"\<close>.\<close>

definition nan_item :: DeskItem where
  "nan_item = \<lparr>timestamp = JStr [], name = JStr ''pen'', x = NaN, y = Fin (1 / 2),
               color = JStr ''blue''\<rparr>"

text \<open>An element whose \<open>x\<close> is the string \<^verbatim>\<open>"abc"\<close>.\<close>

definition bad_entry :: json where
  "bad_entry = JObj [(''name'', JStr ''pen''), (''x'', JStr ''abc''), (''y'', JFloat (Fin (1 / 2)))]"

text \<open>
  A library that knows three documents and two numerals, enough to run the handlers on
  the inputs below.
\<close>

definition demo_load :: "string \<Rightarrow> string + json" where
  "demo_load s = (if s = ''pen-document'' then Inr (JArr [to_dict pen])
                  else if s = ''nan-document'' then Inr (JArr [to_dict nan_item])
                  else if s = ''bad-x-document'' then Inr (JArr [bad_entry])
                  else Inl ''Expecting value'')"

definition demo_dump :: "json \<Rightarrow> string" where
  "demo_dump v = (if v = JArr [to_dict pen] then ''pen-document''
                  else if v = JArr [to_dict nan_item] then ''nan-document''
                  else ''other-document'')"

definition demo_float :: "string \<Rightarrow> pyfloat option" where
  "demo_float s = (if s = ''0.5'' then Some (Fin (1 / 2))
                   else if s = ''1.5'' then Some (Fin (3 / 2)) else None)"

definition demo_float_of_int :: "int \<Rightarrow> pyfloat option" where
  "demo_float_of_int i = Some (Fin (of_int i))"

definition demo_str :: "json \<Rightarrow> string" where
  "demo_str v = ''?''"

definition demo_lib :: pylib where
  "demo_lib = \<lparr>json_load = demo_load, json_dump = demo_dump, float_of_str = demo_float,
                float_of_int = demo_float_of_int, py_str = demo_str\<rparr>"

definition demo_app :: app where
  "demo_app = \<lparr>client = None, items = [pen], last_loaded_mtime = None,
     path_var = ''items.json'', time_var = ''2024-01-01T12:00:00'', name_var = ''stapler'',
     x_var = ''1.5'', y_var = ''0.5'', color_var = ''red'', status_var = [],
     user_question = ''what color is the pen?'', response_box = [], dialogs = [],
     requests = []\<rparr>"

definition no_file :: "path \<rightharpoonup> stored_file" where
  "no_file p = None"

definition never :: "path \<Rightarrow> bool" where
  "never p = False"

definition empty_world :: world where
  "empty_world = \<lparr>files = no_file, unwritable = never\<rparr>"

definition demo_world :: world where
  "demo_world = \<lparr>files = no_file(''items.json'' \<mapsto> \<lparr>contents = ''bad-x-document'', mtime = 5\<rparr>),
                  unwritable = never\<rparr>"

definition blue_client :: "message list \<Rightarrow> chat_result" where
  "blue_client ms = ChatReply ''blue''"

definition make_blue :: "(string \<rightharpoonup> string) \<Rightarrow> (message list \<Rightarrow> chat_result) option" where
  "make_blue e = Some blue_client"

definition no_env :: "string \<rightharpoonup> string" where
  "no_env k = None"

text \<open>A key file of two lines.\<close>

definition two_lines :: string where
  "two_lines = ''sk-abc'' @ newline @ ''backup'' @ newline"

definition two_line_startup :: startup where
  "two_line_startup = \<lparr>openai_imported = True, environ = no_env,
     key_file = Some (Some two_lines), OpenAI = make_blue\<rparr>"

text \<open>A key file whose text holds a NUL character.\<close>

definition nul_startup :: startup where
  "nul_startup = two_line_startup\<lparr>key_file := Some (Some (''sk'' @ [CHR 0x00] @ ''abc''))\<rparr>"

text \<open>
  The window holding the NaN item, the file system after it saved that item at time 7, the
  window after that save, and the window after reloading.
\<close>

definition nan_app :: app where
  "nan_app = demo_app\<lparr>items := [nan_item]\<rparr>"

definition nan_world :: world where
  "nan_world = demo_world\<lparr>files := (files demo_world)
                 (''items.json'' \<mapsto> \<lparr>contents = ''nan-document'', mtime = 7\<rparr>)\<rparr>"

definition nan_saved :: app where
  "nan_saved = nan_app\<lparr>last_loaded_mtime := Some 7, status_var := ''Saved to items.json''\<rparr>"

definition nan_loaded :: app where
  "nan_loaded = nan_saved\<lparr>items := [nan_item],
                              status_var := ''Loaded 1 items from items.json''\<rparr>"

section \<open>Properties\<close>

subsection \<open>Saving and loading\<close>

lemma py_or_str: "is_str v \<Longrightarrow> py_or v (JStr []) = v"
  by (cases v) (auto simp: py_or_def)

lemma from_dict_to_dict: "well_formed it \<Longrightarrow> from_dict L (to_dict it) = Inr it"
  by (simp add: to_dict_def dict_get_def well_formed_def py_or_str)

lemma from_dicts_to_dict:
  "\<forall>it \<in> set its. well_formed it \<Longrightarrow> from_dicts L (map to_dict its) = Inr its"
  by (induction its) (simp_all add: from_dict_to_dict)

lemma well_formed_pen: "well_formed pen"
  by (simp add: well_formed_def pen_def)

lemma float_eq_refl: "f \<noteq> NaN \<Longrightarrow> float_eq f f"
  by (cases f) simp_all

lemma item_eq_refl: "no_nan it \<Longrightarrow> item_eq it it"
  by (simp add: no_nan_def item_eq_def float_eq_refl)

lemma items_eq_refl: "\<forall>it \<in> set its. no_nan it \<Longrightarrow> items_eq its its"
  by (simp add: items_eq_def list_all2_same item_eq_refl)

lemma no_nan_pen: "no_nan pen"
  by (simp add: no_nan_def pen_def)

text \<open>
  C1, as the code has it. After a collection of well-formed items has been saved, loading
  from the same path replaces whatever the window holds by the saved items, in the same
  order and with every field as it was, provided the JSON library reads back the document
  it wrote. When no coordinate is NaN the loaded collection is also equal to the saved one
  under \<^verbatim>\<open>==\<close>.
\<close>

theorem save_load_roundtrip:
  assumes wf: "\<forall>it \<in> set (items st). well_formed it"
    and lib: "json_load L (json_dump L (JArr (map to_dict (items st))))
              = Inr (JArr (map to_dict (items st)))"
    and saved: "save_items L now w st = Inr (st1, w1)"
    and path: "path_var st' = path_var st"
  shows "\<exists>st2. load_from_path L w1 show_errors show_status st' = Inr st2
               \<and> items st2 = items st
               \<and> ((\<forall>it \<in> set (items st). no_nan it) \<longrightarrow> items_eq (items st2) (items st))"
proof -
  from saved have nw: "\<not> unwritable w (path_var st)"
    by (auto simp: save_items_def Let_def split: if_splits)
  with saved have w1: "w1 = w\<lparr>files := (files w)(path_var st \<mapsto>
                 \<lparr>contents = json_dump L (JArr (map to_dict (items st))), mtime = now\<rparr>)\<rparr>"
    by (auto simp: save_items_def Let_def)
  have ex: "path_exists w1 (path_var st)"
    by (simp add: w1 path_exists_def)
  have rd: "json_load L (contents (the (files w1 (path_var st))))
            = Inr (JArr (map to_dict (items st)))"
    by (simp add: w1 lib)
  obtain st2 where l: "load_from_path L w1 show_errors show_status st' = Inr st2"
    and i: "items st2 = items st"
    by (simp add: load_from_path_def Let_def path ex rd from_dicts_to_dict [OF wf])
  have "(\<forall>it \<in> set (items st). no_nan it) \<longrightarrow> items_eq (items st2) (items st)"
    by (simp add: i items_eq_refl)
  with l i show ?thesis by blast
qed

theorem save_load_roundtrip_witness:
  "\<exists>st1 w1 st2. save_items demo_lib 7 demo_world demo_app = Inr (st1, w1)
     \<and> load_from_path demo_lib w1 True True (st1\<lparr>items := []\<rparr>) = Inr st2
     \<and> items st2 = [pen] \<and> items_eq (items st2) [pen]"
proof -
  have i: "items demo_app = [pen]"
    by (simp add: demo_app_def)
  have wf: "\<forall>it \<in> set (items demo_app). well_formed it"
    by (simp add: i well_formed_pen)
  have nn: "\<forall>it \<in> set (items demo_app). no_nan it"
    by (simp add: i no_nan_pen)
  have lib: "json_load demo_lib (json_dump demo_lib (JArr (map to_dict (items demo_app))))
             = Inr (JArr (map to_dict (items demo_app)))"
    by (simp add: i demo_lib_def demo_load_def demo_dump_def)
  obtain st1 w1 where saved: "save_items demo_lib 7 demo_world demo_app = Inr (st1, w1)"
    by (simp add: save_items_def Let_def demo_world_def never_def)
  then have "path_var st1 = path_var demo_app"
    by (auto simp: save_items_def Let_def demo_world_def never_def)
  then have p: "path_var (st1\<lparr>items := []\<rparr>) = path_var demo_app"
    by simp
  from save_load_roundtrip [OF wf lib saved p, of True True] nn saved i show ?thesis
    by auto
qed

text \<open>
  C1 as stated fails at an item whose \<open>x\<close> is NaN: the item is well formed, the save and the
  reload succeed and bring back the same fields, and the reloaded collection is not equal
  to the saved one.
\<close>

theorem nan_roundtrip_counterexample:
  "well_formed nan_item
   \<and> save_items demo_lib 7 demo_world nan_app = Inr (nan_saved, nan_world)
   \<and> load_from_path demo_lib nan_world True True nan_saved = Inr nan_loaded
   \<and> \<not> items_eq (items nan_loaded) (items nan_app)"
proof -
  have wf: "well_formed nan_item"
    by (simp add: well_formed_def nan_item_def)
  have ne: "to_dict nan_item \<noteq> to_dict pen"
    by (simp add: to_dict_def nan_item_def pen_def)
  have d: "json_dump demo_lib (JArr [to_dict nan_item]) = ''nan-document''"
    by (simp add: demo_lib_def demo_dump_def ne)
  have ld: "json_load demo_lib ''nan-document'' = Inr (JArr [to_dict nan_item])"
    by (simp add: demo_lib_def demo_load_def)
  have s: "save_items demo_lib 7 demo_world nan_app = Inr (nan_saved, nan_world)"
    by (simp add: save_items_def Let_def nan_app_def nan_saved_def nan_world_def demo_app_def
        demo_world_def never_def mtime_or_none_def stat_mtime_def d)
  have f: "from_dict demo_lib (to_dict nan_item) = Inr nan_item"
    by (rule from_dict_to_dict [OF wf])
  have l: "load_from_path demo_lib nan_world True True nan_saved = Inr nan_loaded"
    by (simp add: load_from_path_def Let_def path_exists_def nan_loaded_def nan_saved_def
        nan_app_def nan_world_def demo_app_def demo_world_def mtime_or_none_def stat_mtime_def
        ld f show_nat.simps digit_char_def)
  have n: "\<not> items_eq (items nan_loaded) (items nan_app)"
    by (simp add: items_eq_def item_eq_def nan_loaded_def nan_saved_def nan_app_def nan_item_def)
  from wf s l n show ?thesis by (intro conjI)
qed

text \<open>
  C10. A load that fails because the path does not exist, or because the file cannot be
  read as JSON, returns normally and leaves the items and the stored modification time
  as they were.
\<close>

theorem load_failure_keeps_state:
  assumes "\<not> path_exists w (path_var st)
           \<or> (\<exists>exc. json_load L (contents (the (files w (path_var st)))) = Inl exc)"
  shows "\<exists>st'. load_from_path L w show_errors show_status st = Inr st'
               \<and> items st' = items st \<and> last_loaded_mtime st' = last_loaded_mtime st"
  using assms by (auto simp: load_from_path_def Let_def showerror_def)

theorem load_failure_keeps_state_witness:
  "\<exists>st'. load_from_path demo_lib empty_world True True demo_app = Inr st'
         \<and> items st' = items demo_app \<and> last_loaded_mtime st' = last_loaded_mtime demo_app"
proof -
  have "\<not> path_exists empty_world (path_var demo_app)"
    by (simp add: path_exists_def empty_world_def no_file_def)
  then show ?thesis
    using load_failure_keeps_state [of empty_world demo_app demo_lib True True] by simp
qed

text \<open>
  C4. After a save that succeeded, the stored modification time is that of the file just
  written, and a poll of the same, unmodified file does not reload: it leaves the state
  as it is.
\<close>

theorem save_then_poll_unchanged:
  assumes "save_items L now w st = Inr (st1, w1)"
  shows "files w1 (path_var st1) \<noteq> None
         \<and> last_loaded_mtime st1 = Some (mtime (the (files w1 (path_var st1))))
         \<and> \<not> poll_wants_reload w1 st1
         \<and> poll_file_change L w1 st1 = st1"
  using assms
  by (auto simp: save_items_def Let_def mtime_or_none_def stat_mtime_def poll_wants_reload_def
      poll_file_change_def path_exists_def split: if_splits)

theorem save_then_poll_unchanged_witness:
  "\<exists>st1 w1. save_items demo_lib 7 demo_world demo_app = Inr (st1, w1)
     \<and> last_loaded_mtime st1 = Some 7 \<and> poll_file_change demo_lib w1 st1 = st1"
proof -
  obtain st1 w1 where saved: "save_items demo_lib 7 demo_world demo_app = Inr (st1, w1)"
    by (simp add: save_items_def Let_def demo_world_def never_def)
  then have "mtime (the (files w1 (path_var st1))) = 7"
    by (auto simp: save_items_def Let_def demo_world_def never_def)
  with save_then_poll_unchanged [OF saved] saved show ?thesis
    by auto
qed

subsection \<open>Adding an item\<close>

text \<open>
  C3. When a coordinate text is not a number, or the name is empty after stripping, or
  \<open>x\<close> is a number below 0 or above 1 (such as 1.5 or -0.1), \<open>add_item\<close> only shows an
  error dialog: the collection, and every other field, is as before.
\<close>

theorem add_item_rejects:
  assumes "float_of_str L (x_var st) = None \<or> float_of_str L (y_var st) = None
           \<or> strip (name_var st) = []
           \<or> (\<exists>r. float_of_str L (x_var st) = Some (Fin r) \<and> (r < 0 \<or> 1 < r))"
  shows "(\<exists>title txt. add_item L now_iso st = showerror title txt st)
         \<and> items (add_item L now_iso st) = items st"
  using assms
  by (auto simp: add_item_def Let_def showerror_def split: option.splits)

theorem add_item_rejects_witness:
  "float_of_str demo_lib (x_var demo_app) = Some (Fin (3 / 2))
   \<and> items (add_item demo_lib ''2024-01-01T12:00:00'' demo_app) = items demo_app"
proof -
  have a: "float_of_str demo_lib (x_var demo_app) = Some (Fin (3 / 2))"
    by (simp add: demo_lib_def demo_float_def demo_app_def)
  have "float_of_str demo_lib (x_var demo_app) = Some (Fin (3 / 2)) \<and> ((3 / 2 :: rat) < 0 \<or> 1 < (3 / 2 :: rat))"
    using a by simp
  then have "\<exists>r. float_of_str demo_lib (x_var demo_app) = Some (Fin r) \<and> (r < 0 \<or> 1 < r)"
    by (rule exI)
  then show ?thesis
    using a add_item_rejects [of demo_lib demo_app "''2024-01-01T12:00:00''"] by blast
qed

subsection \<open>Polling\<close>

text \<open>
  C5, as the code has it. The poll reloads exactly when the file exists and either no
  modification time has been stored yet or the file's modification time is strictly later
  than the stored one; when the path does not exist the poll returns the state unchanged,
  and no exception leaves it.
\<close>

theorem poll_reload_condition:
  "(poll_wants_reload w st \<longleftrightarrow>
     (\<exists>f. files w (path_var st) = Some f
          \<and> (last_loaded_mtime st = None \<or> (\<exists>b. last_loaded_mtime st = Some b \<and> b < mtime f))))
   \<and> (files w (path_var st) = None \<longrightarrow> poll_file_change L w st = st)"
  by (auto simp: poll_wants_reload_def poll_file_change_def Let_def path_exists_def stat_mtime_def
      split: option.splits)

theorem poll_reload_condition_witness:
  "files empty_world (path_var demo_app) = None
   \<and> poll_file_change demo_lib empty_world demo_app = demo_app"
proof -
  have "files empty_world (path_var demo_app) = None"
    by (simp add: empty_world_def no_file_def)
  then show ?thesis
    using poll_reload_condition [of empty_world demo_app demo_lib] by blast
qed

text \<open>
  C5 as stated fails when no modification time is stored: the file exists, there is no
  baseline that its modification time could be later than, and the poll reloads.
\<close>

theorem poll_no_baseline_counterexample:
  "poll_wants_reload demo_world demo_app \<and> last_loaded_mtime demo_app = None"
  by (simp add: poll_wants_reload_def path_exists_def stat_mtime_def demo_world_def demo_app_def)

subsection \<open>A malformed coordinate in the file\<close>

text \<open>
  C2 at a file that holds a JSON array with one object whose \<open>x\<close> is \<^verbatim>\<open>"abc"\<close>: the
  reload raises ValueError out of \<open>_load_from_path\<close> and shows no dialog, and the poll
  swallows the same exception without any notice.
\<close>

theorem reload_bad_coordinate_escapes:
  "load_from_path demo_lib demo_world True True demo_app = Inl ValueError
   \<and> poll_file_change demo_lib demo_world demo_app = demo_app"
proof -
  have f: "files demo_world (path_var demo_app)
           = Some \<lparr>contents = ''bad-x-document'', mtime = 5\<rparr>"
    by (simp add: demo_world_def demo_app_def)
  have d: "json_load demo_lib ''bad-x-document'' = Inr (JArr [bad_entry])"
    by (simp add: demo_lib_def demo_load_def)
  have x: "float_of_str demo_lib ''abc'' = None"
    by (simp add: demo_lib_def demo_float_def)
  have b: "from_dict demo_lib bad_entry = Inl ValueError"
    by (simp add: bad_entry_def dict_get_def x)
  have l: "load_from_path demo_lib demo_world True True demo_app = Inl ValueError"
    and l': "load_from_path demo_lib demo_world False True demo_app = Inl ValueError"
    by (simp_all add: load_from_path_def Let_def path_exists_def f d b)
  have "poll_file_change demo_lib demo_world demo_app = demo_app"
    by (simp add: poll_file_change_def l')
  with l show ?thesis by simp
qed

subsection \<open>The prompt\<close>


lemma contains_nil: "contains s []"
  by (cases s) simp_all

lemma contains_prefix: "contains (n @ post) n"
  by (cases n) (simp_all add: contains_nil)

lemma contains_append: "contains (pre @ needle @ post) needle"
  by (induction pre) (simp_all add: contains_prefix)






subsection \<open>Asking with an empty collection\<close>

text \<open>
  C6, as the code has it. With an empty collection the chat capability is never called;
  and when a client is configured and the question is not blank, the chat box gains the
  question and the fixed reply that there are no items.
\<close>

theorem empty_collection_short_circuit:
  assumes "items st = []"
  shows "requests (send_question L st) = requests st
         \<and> (client st \<noteq> None \<and> strip (user_question st) \<noteq> [] \<longrightarrow>
              response_box (send_question L st)
                = response_box st @ ''You: '' @ strip (user_question st) @ newline @ NO_ITEMS_REPLY)"
  using assms
  by (auto simp: send_question_def Let_def showerror_def append_chat_def split: option.splits)

theorem empty_collection_short_circuit_witness:
  "items (demo_app\<lparr>client := Some blue_client, items := []\<rparr>) = []
   \<and> requests (send_question demo_lib (demo_app\<lparr>client := Some blue_client, items := []\<rparr>)) = []
   \<and> response_box (send_question demo_lib (demo_app\<lparr>client := Some blue_client, items := []\<rparr>))
       = ''You: what color is the pen?'' @ newline @ NO_ITEMS_REPLY"
proof -
  have s: "strip ''what color is the pen?'' = ''what color is the pen?''"
    by (simp add: strip_def is_space_def)
  have e: "items (demo_app\<lparr>client := Some blue_client, items := []\<rparr>) = []"
    by simp
  from empty_collection_short_circuit [OF e, of demo_lib] show ?thesis
    by (simp add: demo_app_def s)
qed

lemma strip_no_break_space: "strip [CHR 0xA0] = [] \<and> strip (''hi'' @ [CHR 0xA0]) = ''hi''"
  by (simp add: strip_def is_space_def)

text \<open>
  C6 as stated fails when no client is configured: the collection is empty, a question is
  asked, and the chat box does not receive the reply (the disabled notice is shown
  instead).
\<close>

theorem send_question_empty_counterexample:
  "items (demo_app\<lparr>items := []\<rparr>) = []
   \<and> response_box (send_question demo_lib (demo_app\<lparr>items := []\<rparr>)) = []
   \<and> dialogs (send_question demo_lib (demo_app\<lparr>items := []\<rparr>)) = [DISABLED_NOTICE]"
  by (simp add: send_question_def demo_app_def showerror_def)

subsection \<open>Classifying an error text\<close>

lemma contains_split: "contains s n \<Longrightarrow> \<exists>pre post. s = pre @ n @ post"
proof (induction s)
  case Nil
  then show ?case by simp
next
  case (Cons c cs)
  from Cons.prems have "take (length n) (c # cs) = n \<or> contains cs n" by simp
  then show ?case
  proof
    assume t: "take (length n) (c # cs) = n"
    have "c # cs = [] @ take (length n) (c # cs) @ drop (length n) (c # cs)"
      by (simp only: append_Nil append_take_drop_id)
    with t have "c # cs = [] @ n @ drop (length n) (c # cs)" by simp
    then show ?thesis by blast
  next
    assume "contains cs n"
    with Cons.IH obtain pre post where "cs = pre @ n @ post" by blast
    then have "c # cs = (c # pre) @ n @ post" by simp
    then show ?thesis by blast
  qed
qed

lemma contains_lower:
  assumes "contains s n" and "lower n = n"
  shows "contains (lower s) n"
proof -
  from assms(1) obtain pre post where "s = pre @ n @ post"
    using contains_split by blast
  then have "lower s = lower pre @ n @ lower post"
    using assms(2) by (simp add: lower_def)
  then show ?thesis by (simp only: contains_append)
qed

lemma contains_suffix: "contains s (a @ b) \<Longrightarrow> contains s b"
proof -
  assume "contains s (a @ b)"
  then obtain pre post where "s = pre @ (a @ b) @ post"
    using contains_split by blast
  then have "s = (pre @ a) @ b @ post" by simp
  then show ?thesis by (simp only: contains_append)
qed

lemma lower_needle_quota: "lower ''insufficient_quota'' = ''insufficient_quota''"
  by (simp add: lower_def lower_char_def)

lemma lower_needle_401: "lower ''401'' = ''401''"
  by (simp add: lower_def lower_char_def)

text \<open>
  C7, as the code has it. The text is lower-cased first. If it then contains \<open>quota\<close>
  (which \<open>insufficient_quota\<close> does) the answer is the quota text; otherwise, if it
  contains \<open>401\<close> or \<open>invalid_api_key\<close>, the answer is the key text; otherwise the text
  itself, unchanged. So a message containing \<open>insufficient_quota\<close> is always the quota
  class, and one containing \<open>401\<close> is the key class unless it mentions a quota.
\<close>

theorem friendly_error_classes:
  "friendly_error msg =
     (if contains (lower msg) ''quota'' then QUOTA_TEXT
      else if contains (lower msg) ''401'' \<or> contains (lower msg) ''invalid_api_key'' then AUTH_TEXT
      else msg)
   \<and> (contains msg ''insufficient_quota'' \<longrightarrow> friendly_error msg = QUOTA_TEXT)
   \<and> (contains msg ''401'' \<and> \<not> contains (lower msg) ''quota'' \<longrightarrow> friendly_error msg = AUTH_TEXT)"
proof -
  have q: "contains (lower msg) ''insufficient_quota'' \<Longrightarrow> contains (lower msg) ''quota''"
    using contains_suffix [of "lower msg" "''insufficient_''" "''quota''"] by simp
  have 1: "friendly_error msg =
     (if contains (lower msg) ''quota'' then QUOTA_TEXT
      else if contains (lower msg) ''401'' \<or> contains (lower msg) ''invalid_api_key'' then AUTH_TEXT
      else msg)"
    using q by (auto simp: friendly_error_def Let_def)
  have 2: "contains msg ''insufficient_quota'' \<longrightarrow> friendly_error msg = QUOTA_TEXT"
  proof
    assume "contains msg ''insufficient_quota''"
    then have "contains (lower msg) ''insufficient_quota''"
      using lower_needle_quota by (rule contains_lower)
    then have "contains (lower msg) ''quota''" by (rule q)
    then show "friendly_error msg = QUOTA_TEXT" by (simp only: 1 if_True)
  qed
  have 3: "contains msg ''401'' \<and> \<not> contains (lower msg) ''quota'' \<longrightarrow> friendly_error msg = AUTH_TEXT"
  proof
    assume h: "contains msg ''401'' \<and> \<not> contains (lower msg) ''quota''"
    then have "contains (lower msg) ''401''"
      using lower_needle_401 contains_lower by blast
    with h show "friendly_error msg = AUTH_TEXT" by (simp only: 1 if_True if_False simp_thms)
  qed
  from 1 2 3 show ?thesis by (intro conjI)
qed

theorem friendly_error_classes_witness:
  "contains ''429 insufficient_quota'' ''insufficient_quota''
   \<and> friendly_error ''429 insufficient_quota'' = QUOTA_TEXT
   \<and> contains ''Error 401'' ''401'' \<and> \<not> contains (lower ''Error 401'') ''quota''
   \<and> friendly_error ''Error 401'' = AUTH_TEXT"
proof -
  have a: "contains ''429 insufficient_quota'' ''insufficient_quota''"
    by simp
  have b: "contains ''Error 401'' ''401'' \<and> \<not> contains (lower ''Error 401'') ''quota''"
    by (simp add: lower_def lower_char_def)
  from a b friendly_error_classes [of "''429 insufficient_quota''"]
    friendly_error_classes [of "''Error 401''"]
  show ?thesis by blast
qed

text \<open>
  C7 as stated fails at the text \<open>Quota exceeded\<close>: it contains neither
  \<open>insufficient_quota\<close> nor \<open>401\<close>, and it is not passed through.
\<close>

theorem friendly_error_counterexample:
  "\<not> contains ''Quota exceeded'' ''insufficient_quota'' \<and> \<not> contains ''Quota exceeded'' ''401''
   \<and> friendly_error ''Quota exceeded'' = QUOTA_TEXT
   \<and> QUOTA_TEXT \<noteq> ''Quota exceeded''"
proof -
  have l: "lower ''Quota exceeded'' = ''quota exceeded''"
    by (simp add: lower_def lower_char_def)
  have "contains ''quota exceeded'' ''quota''"
    by simp
  then have "friendly_error ''Quota exceeded'' = QUOTA_TEXT"
    by (simp only: friendly_error_def Let_def l simp_thms if_True)
  moreover have "\<not> contains ''Quota exceeded'' ''insufficient_quota''"
    by simp
  moreover have "\<not> contains ''Quota exceeded'' ''401''"
    by simp
  moreover have "QUOTA_TEXT \<noteq> ''Quota exceeded''"
    by (simp add: QUOTA_TEXT_def)
  ultimately show ?thesis by blast
qed

subsection \<open>Credentials and the disabled assistant\<close>

lemma init_no_key: "resolved_key s = None \<Longrightarrow> fst (init_openai_client s) = None"
  by (auto simp: init_openai_client_def resolved_key_def file_key_def env_key_def Let_def
      environ_set_def split: option.splits if_splits)

lemma send_question_disabled:
  "client st = None \<Longrightarrow>
     send_question L st = showerror (fst DISABLED_NOTICE) (snd DISABLED_NOTICE) st
     \<and> requests (send_question L st) = requests st"
  by (simp add: send_question_def showerror_def)

text \<open>
  C9, as the code has it. When the \<open>openai\<close> package was imported, the key is the
  environment variable if it is set and not empty, otherwise the whole text of the key file
  stripped of white space at both ends, if that is not empty and the environment accepts
  it; the client is built from the environment holding that key. When neither gives a key there is no client, and then
  every question only shows the disabled notice and no request is made.
\<close>

theorem credential_resolution:
  "(openai_imported s \<longrightarrow>
      init_openai_client s =
        (case resolved_key s of
           None \<Rightarrow> (None, environ s)
         | Some k \<Rightarrow> (OpenAI s ((environ s)(''OPENAI_API_KEY'' \<mapsto> k)),
                      (environ s)(''OPENAI_API_KEY'' \<mapsto> k))))
   \<and> (resolved_key s = None \<and> client st = fst (init_openai_client s) \<longrightarrow>
        send_question L st = showerror (fst DISABLED_NOTICE) (snd DISABLED_NOTICE) st
        \<and> requests (send_question L st) = requests st)"
proof -
  have a: "environ s ''OPENAI_API_KEY'' = Some v
           \<Longrightarrow> (environ s)(''OPENAI_API_KEY'' \<mapsto> v) = environ s" for v
    by (rule map_upd_triv)
  have 1: "openai_imported s \<longrightarrow>
      init_openai_client s =
        (case resolved_key s of
           None \<Rightarrow> (None, environ s)
         | Some k \<Rightarrow> (OpenAI s ((environ s)(''OPENAI_API_KEY'' \<mapsto> k)),
                      (environ s)(''OPENAI_API_KEY'' \<mapsto> k)))"
    by (auto simp: init_openai_client_def resolved_key_def file_key_def env_key_def Let_def a
        environ_set_def split: option.splits)
  have 2: "resolved_key s = None \<and> client st = fst (init_openai_client s) \<longrightarrow>
        send_question L st = showerror (fst DISABLED_NOTICE) (snd DISABLED_NOTICE) st
        \<and> requests (send_question L st) = requests st"
  proof
    assume h: "resolved_key s = None \<and> client st = fst (init_openai_client s)"
    then have "client st = None" using init_no_key by simp
    then show "send_question L st = showerror (fst DISABLED_NOTICE) (snd DISABLED_NOTICE) st
        \<and> requests (send_question L st) = requests st" by (rule send_question_disabled)
  qed
  from 1 2 show ?thesis by (rule conjI)
qed

lemma strip_two_lines: "strip two_lines = ''sk-abc'' @ newline @ ''backup''"
  by (simp add: two_lines_def strip_def is_space_def newline_def)

lemma two_line_key: "resolved_key two_line_startup = Some (''sk-abc'' @ newline @ ''backup'')"
  by (simp add: resolved_key_def file_key_def two_line_startup_def no_env_def strip_two_lines
      newline_def)

theorem credential_resolution_witness:
  "openai_imported two_line_startup
   \<and> init_openai_client two_line_startup
       = (Some blue_client, no_env(''OPENAI_API_KEY'' \<mapsto> ''sk-abc'' @ newline @ ''backup''))
   \<and> resolved_key (two_line_startup\<lparr>key_file := None\<rparr>) = None
   \<and> client demo_app = fst (init_openai_client (two_line_startup\<lparr>key_file := None\<rparr>))
   \<and> dialogs (send_question demo_lib demo_app) = [DISABLED_NOTICE]
   \<and> requests (send_question demo_lib demo_app) = []"
proof -
  have i: "openai_imported two_line_startup"
    by (simp add: two_line_startup_def)
  have e: "environ two_line_startup = no_env" and o: "OpenAI two_line_startup = make_blue"
    by (simp_all add: two_line_startup_def)
  from credential_resolution [of two_line_startup] i
  have 1: "init_openai_client two_line_startup
       = (Some blue_client, no_env(''OPENAI_API_KEY'' \<mapsto> ''sk-abc'' @ newline @ ''backup''))"
    by (simp add: two_line_key e o make_blue_def)
  have n: "resolved_key (two_line_startup\<lparr>key_file := None\<rparr>) = None"
    by (simp add: resolved_key_def file_key_def two_line_startup_def no_env_def)
  have c: "client demo_app = fst (init_openai_client (two_line_startup\<lparr>key_file := None\<rparr>))"
    by (simp add: init_no_key [OF n] demo_app_def)
  from credential_resolution [of "two_line_startup\<lparr>key_file := None\<rparr>" demo_app demo_lib] n c
  have "send_question demo_lib demo_app
          = showerror (fst DISABLED_NOTICE) (snd DISABLED_NOTICE) demo_app
        \<and> requests (send_question demo_lib demo_app) = requests demo_app"
    by blast
  then have 2: "dialogs (send_question demo_lib demo_app) = [DISABLED_NOTICE]
                \<and> requests (send_question demo_lib demo_app) = []"
    by (simp add: showerror_def demo_app_def)
  from i 1 n c 2 show ?thesis by blast
qed

lemma nul_key_gives_no_client: "init_openai_client nul_startup = (None, no_env)"
  by (simp add: init_openai_client_def nul_startup_def two_line_startup_def env_key_def
      no_env_def strip_def is_space_def environ_set_def Let_def)

text \<open>
  C9 as stated fails at a key file of two lines: the key taken is the whole stripped text,
  line feed included, not the first line.
\<close>

theorem key_file_counterexample:
  "snd (init_openai_client two_line_startup) ''OPENAI_API_KEY''
     = Some (''sk-abc'' @ newline @ ''backup'')
   \<and> strip (first_line two_lines) = ''sk-abc''
   \<and> ''sk-abc'' @ newline @ ''backup'' \<noteq> ''sk-abc''"
proof -
  have k: "env_key (no_env(''OPENAI_API_KEY'' \<mapsto> ''sk-abc'' @ newline @ ''backup''))"
    by (simp add: env_key_def)
  have "\<not> env_key no_env"
    by (simp add: env_key_def no_env_def)
  then have "snd (init_openai_client two_line_startup) ''OPENAI_API_KEY''
     = Some (''sk-abc'' @ newline @ ''backup'')"
    by (simp add: init_openai_client_def two_line_startup_def strip_two_lines Let_def k
        environ_set_def newline_def)
  moreover have "strip (first_line two_lines) = ''sk-abc''"
    by (simp add: two_lines_def first_line_def newline_def strip_def is_space_def)
  ultimately show ?thesis by simp
qed

end
